theory Spec2Isabelle
  imports Main "HOL-Library.Word"
begin

section \<open>Data model\<close>

text \<open>
  A configuration value as \<^verbatim>\<open>reflect\<close> shows it to \<^verbatim>\<open>config.go\<close>: a value is one of the
  six scalar types the package registers, a struct (its fields in declaration order), a
  pointer (nil, or pointing at a value), or a value of any other type, of which only the
  type's name (\<^verbatim>\<open>field.Type.String()\<close>) and an opaque content are kept.
  \<^verbatim>\<open>int\<close>, \<^verbatim>\<open>int64\<close> and \<^verbatim>\<open>time.Duration\<close> (a count of nanoseconds) carry their number;
  no arithmetic is done on them, they are parsed, stored and copied. A \<^verbatim>\<open>float64\<close> is its
  64-bit pattern.

  A field carries its identifier, whether it is exported, its struct tag as the list of
  its key/value pairs, and its current value.

  A field of an interface type counts among the values of any other type, whatever it
  holds. Pointers own what they point to: a configuration value is a tree, two pointer
  fields never share a target and no struct reaches itself.
\<close>

datatype val =
    VInt int
  | VInt64 int
  | VFloat64 "64 word"
  | VString string
  | VBool bool
  | VDuration int
  | VStruct "field list"
  | VPtr "val option"
  | VOther string string
and field =
    Field (fname: string) (exported: bool) (ftag: "(string \<times> string) list") (fvalue: val)

text \<open>\<^verbatim>\<open>reflect.Kind\<close>, as far as the walker looks at it.\<close>

datatype kind = Ptr | Struct | Scalar

fun Kind :: "val \<Rightarrow> kind" where
  "Kind (VPtr _) = Ptr"
| "Kind (VStruct _) = Struct"
| "Kind _ = Scalar"

text \<open>\<^verbatim>\<open>StructTag.Lookup\<close>: the value of the first pair under the key, and whether there is one.\<close>

definition Lookup :: "(string \<times> string) list \<Rightarrow> string \<Rightarrow> string \<times> bool" where
  "Lookup tag key = (case map_of tag key of None \<Rightarrow> ([], False) | Some v \<Rightarrow> (v, True))"

definition Get :: "(string \<times> string) list \<Rightarrow> string \<Rightarrow> string" where
  "Get tag key = fst (Lookup tag key)"

section \<open>Collaborators\<close>

text \<open>
  The functions of \<^verbatim>\<open>strcase\<close> and \<^verbatim>\<open>strconv\<close>/\<^verbatim>\<open>time\<close> that the package calls are not
  part of it; they are parameters of the model. A parser returns \<open>None\<close> where the Go
  function returns an error.
\<close>

record lib =
  ToKebab :: "string \<Rightarrow> string"
  ToScreamingSnake :: "string \<Rightarrow> string"
  Atoi :: "string \<Rightarrow> int option"
  ParseInt :: "string \<Rightarrow> int option"
  ParseFloat :: "string \<Rightarrow> 64 word option"
  ParseDuration :: "string \<Rightarrow> int option"

text \<open>
  The environment table. \<^verbatim>\<open>os.LookupEnv\<close> reports a variable with an empty name as
  absent (\<^verbatim>\<open>syscall.Getenv\<close> returns not-found for a key of length 0).
\<close>

type_synonym env = "string \<Rightarrow> string option"

definition LookupEnv :: "env \<Rightarrow> string \<Rightarrow> string option" where
  "LookupEnv e key = (if key = [] then None else e key)"

text \<open>
  \<^verbatim>\<open>strings.ToUpper\<close> on the bytes of a string: the letters a to z become A to Z. Go maps
  characters beyond ASCII too, none of them to a letter of \<^verbatim>\<open>TRUE\<close> or to a digit; here
  their bytes stay as they are.
\<close>

definition upper_byte :: "char \<Rightarrow> char" where
  "upper_byte c =
     (case map_of (zip ''abcdefghijklmnopqrstuvwxyz'' ''ABCDEFGHIJKLMNOPQRSTUVWXYZ'') c of
        None \<Rightarrow> c
      | Some u \<Rightarrow> u)"

definition ToUpper :: "string \<Rightarrow> string" where
  "ToUpper s = map upper_byte s"

section \<open>Errors\<close>

text \<open>
  One constructor per \<^verbatim>\<open>fmt.Errorf\<close> of the package, with the values it formats:
  \<^item> \<open>NotStructPointer\<close>: \<^verbatim>\<open>argument is not a struct pointer\<close>;
  \<^item> \<open>ParseFailure envNm res\<close>: \<^verbatim>\<open>%w, lookupEnv[%s]: %v\<close>, around the parser's error;
  \<^item> \<open>LookupUnsupported envNm t\<close>: \<^verbatim>\<open>lookupEnv[%s]: unsupported type %v\<close>, where
    \<^verbatim>\<open>t\<close> is the default value itself;
  \<^item> \<open>FieldFailure err name\<close>: \<^verbatim>\<open>%w; %s: field failure\<close>;
  \<^item> \<open>Unaddressable name\<close>: \<^verbatim>\<open>unable to address field %s\<close>;
  \<^item> \<open>UnsupportedType tname\<close>: \<^verbatim>\<open>unsuported struct type %s\<close>.
\<close>

datatype error =
    NotStructPointer
  | ParseFailure string string
  | LookupUnsupported string val
  | FieldFailure error string
  | Unaddressable string
  | UnsupportedType string

section \<open>Environment resolver\<close>

fun lookupEnv :: "lib \<Rightarrow> env \<Rightarrow> string \<Rightarrow> val \<Rightarrow> error + val" where
  "lookupEnv L e envNm defaultVal =
     (case LookupEnv e envNm of
        None \<Rightarrow> Inr defaultVal
      | Some res \<Rightarrow>
         (case defaultVal of
            VInt _ \<Rightarrow>
              (case Atoi L res of
                 None \<Rightarrow> Inl (ParseFailure envNm res)
               | Some v \<Rightarrow> Inr (VInt v))
          | VInt64 _ \<Rightarrow>
              (case ParseInt L res of
                 None \<Rightarrow> Inl (ParseFailure envNm res)
               | Some v \<Rightarrow> Inr (VInt64 v))
          | VFloat64 _ \<Rightarrow>
              (case ParseFloat L res of
                 None \<Rightarrow> Inl (ParseFailure envNm res)
               | Some v \<Rightarrow> Inr (VFloat64 v))
          | VBool _ \<Rightarrow>
              (let bstr = ToUpper res
               in if bstr = ''TRUE'' \<or> bstr = ''1'' then Inr (VBool True) else Inr (VBool False))
          | VString _ \<Rightarrow> Inr (VString res)
          | VDuration _ \<Rightarrow>
              (case ParseDuration L res of
                 None \<Rightarrow> Inl (ParseFailure envNm res)
               | Some v \<Rightarrow> Inr (VDuration v))
          | t \<Rightarrow> Inl (LookupUnsupported envNm t)))"


section \<open>Flag registrar\<close>

text \<open>
  A \<^verbatim>\<open>flag.FlagSet\<close>, as far as the package uses it: \<open>formal\<close> is its map from names to
  flags. A flag keeps its usage text, its default, and the variable it is bound to: the
  path of field indices from the root struct to the bound field, or \<open>None\<close> for a
  variable outside the configuration value. \<open>consulted\<close> is not part of the flag set: it
  logs, in order, the names handed to \<^verbatim>\<open>os.LookupEnv\<close>.
\<close>

record flag =
  Usage :: string
  DefValue :: val
  Target :: "nat list option"

record state =
  formal :: "string \<Rightarrow> flag option"
  consulted :: "string list"

text \<open>
  What a call does besides returning: \<open>OK\<close> is a nil error, \<open>Err\<close> a returned error,
  \<open>Panic\<close> a run-time panic, \<open>Exit\<close> the end of the process by \<^verbatim>\<open>os.Exit\<close>.
\<close>

datatype panic =
    NumFieldOfNonStruct
  | TypeAssertion string
  | FlagBeginsWithDash string
  | FlagContainsEquals string
  | FlagRedefined string

datatype status = OK | Err error | Panic panic | Exit nat

text \<open>
  \<^verbatim>\<open>FlagSet.Var\<close>: a name must not begin with \<^verbatim>\<open>-\<close>, contain \<^verbatim>\<open>=\<close>, or be defined
  already; each of these panics.
\<close>

definition Var :: "state \<Rightarrow> string \<Rightarrow> flag \<Rightarrow> status \<times> state" where
  "Var st name fl =
     (if take 1 name = ''-'' then (Panic (FlagBeginsWithDash name), st)
      else if CHR ''='' \<in> set name then (Panic (FlagContainsEquals name), st)
      else if formal st name \<noteq> None then (Panic (FlagRedefined name), st)
      else (OK, st\<lparr>formal := (formal st)(name \<mapsto> fl)\<rparr>))"

text \<open>The dynamic type of a value is the type of that name: what \<^verbatim>\<open>x.(T)\<close> tests.\<close>

fun hasType :: "val \<Rightarrow> string \<Rightarrow> bool" where
  "hasType (VInt _) T = (T = ''int'')"
| "hasType (VInt64 _) T = (T = ''int64'')"
| "hasType (VFloat64 _) T = (T = ''float64'')"
| "hasType (VString _) T = (T = ''string'')"
| "hasType (VBool _) T = (T = ''bool'')"
| "hasType (VDuration _) T = (T = ''time.Duration'')"
| "hasType _ T = False"

text \<open>\<^verbatim>\<open>reflect.Type.String()\<close> of a field's type.\<close>

fun TypeString :: "val \<Rightarrow> string" where
  "TypeString (VInt _) = ''int''"
| "TypeString (VInt64 _) = ''int64''"
| "TypeString (VFloat64 _) = ''float64''"
| "TypeString (VString _) = ''string''"
| "TypeString (VBool _) = ''bool''"
| "TypeString (VDuration _) = ''time.Duration''"
| "TypeString (VOther T _) = T"
| "TypeString (VStruct _) = ''struct''"
| "TypeString (VPtr _) = ''ptr''"

definition setValue :: "field \<Rightarrow> val \<Rightarrow> field" where
  "setValue f v = Field (fname f) (exported f) (ftag f) v"

text \<open>
  \<^verbatim>\<open>IntVar\<close>, \<^verbatim>\<open>Int64Var\<close>, \<^verbatim>\<open>Float64Var\<close>, \<^verbatim>\<open>StringVar\<close>, \<^verbatim>\<open>BoolVar\<close> and
  \<^verbatim>\<open>DurationVar\<close> for the type named \<open>T\<close>, with the two type assertions of the call
  site (\<^verbatim>\<open>fValue.Addr().Interface().(*T)\<close> and \<^verbatim>\<open>defaultVal.(T)\<close>): the default is
  stored through the pointer, then the flag is handed to \<^verbatim>\<open>Var\<close>.
\<close>

definition typedVar ::
  "string \<Rightarrow> state \<Rightarrow> nat list \<Rightarrow> field \<Rightarrow> string \<Rightarrow> val \<Rightarrow> string \<Rightarrow> status \<times> field \<times> state" where
  "typedVar T st p f name value usage =
     (if hasType (fvalue f) T \<and> hasType value T
      then (case Var st name \<lparr>Usage = usage, DefValue = value, Target = Some p\<rparr> of
              (r, st') \<Rightarrow> (r, setValue f value, st'))
      else (Panic (TypeAssertion T), f, st))"

section \<open>Struct walker\<close>

text \<open>
  The walker only ever sees fields of a struct reached through a pointer, so every field
  is addressable; a field can be set and read through \<^verbatim>\<open>Interface()\<close> when it is
  exported.
\<close>

definition CanAddr :: "field \<Rightarrow> bool" where
  "CanAddr f = True"

definition CanInterface :: "field \<Rightarrow> bool" where
  "CanInterface f = exported f"

definition CanSet :: "field \<Rightarrow> bool" where
  "CanSet f = (CanAddr f \<and> exported f)"

text \<open>The flag name of a field that is not ignored (lines 126 to 134).\<close>

definition flagName :: "lib \<Rightarrow> string \<Rightarrow> field \<Rightarrow> string" where
  "flagName L pfx f =
     (case Lookup (ftag f) ''flag'' of (flagTag, flagTagOK) \<Rightarrow>
        if flagTag \<noteq> [] then ToKebab L pfx @ flagTag
        else ToKebab L pfx @ ToKebab L (fname f))"

text \<open>The prefix handed to the fields of a nested struct (lines 141 to 145).\<close>

definition fpfx :: "lib \<Rightarrow> string \<Rightarrow> field \<Rightarrow> string" where
  "fpfx L pfx f =
     (case Lookup (ftag f) ''flag'' of (flagTag, flagTagOK) \<Rightarrow>
        if flagTagOK \<and> flagTag = [] then [] else flagName L pfx f @ ''-'')"

text \<open>The environment name of a scalar field whose flag name is \<open>name\<close> (lines 160 to 166).\<close>

definition envName :: "lib \<Rightarrow> string \<Rightarrow> field \<Rightarrow> string" where
  "envName L name f =
     (case Lookup (ftag f) ''env'' of (envTag, envTagOK) \<Rightarrow>
        if envTagOK then envTag else ToScreamingSnake L name)"

text \<open>The switch on \<^verbatim>\<open>field.Type.String()\<close> (lines 177 to 204).\<close>

definition registerField ::
  "lib \<Rightarrow> string \<Rightarrow> nat list \<Rightarrow> field \<Rightarrow> val \<Rightarrow> state \<Rightarrow> status \<times> field \<times> state" where
  "registerField L pfx p f defaultVal st =
     (let flagUsage = Get (ftag f) ''usage'';
          T = TypeString (fvalue f)
      in if \<not> CanAddr f then (Err (Unaddressable (fname f)), f, st)
         else if T = ''int'' then typedVar ''int'' st p f (flagName L pfx f) defaultVal flagUsage
         else if T = ''int64'' then typedVar ''int64'' st p f (flagName L pfx f) defaultVal flagUsage
         else if T = ''float64'' then typedVar ''float64'' st p f (flagName L pfx f) defaultVal flagUsage
         else if T = ''string'' then typedVar ''string'' st p f (flagName L pfx f) defaultVal flagUsage
         else if T = ''bool'' then typedVar ''bool'' st p f (flagName L pfx f) defaultVal flagUsage
         else if T = ''time.Duration''
           then typedVar ''time.Duration'' st p f (flagName L pfx f) defaultVal flagUsage
         else (Err (UnsupportedType T), f, st))"

text \<open>A field that is neither a pointer nor a struct (lines 158 to 204).\<close>

definition scalarField ::
  "lib \<Rightarrow> env \<Rightarrow> string \<Rightarrow> nat list \<Rightarrow> field \<Rightarrow> state \<Rightarrow> status \<times> field \<times> state" where
  "scalarField L e pfx p f st =
     (if fst (Lookup (ftag f) ''env'') \<noteq> ''-''
      then (case lookupEnv L e (envName L (flagName L pfx f) f) (fvalue f) of
              Inl err \<Rightarrow> (Err err, f, st\<lparr>consulted := consulted st @ [envName L (flagName L pfx f) f]\<rparr>)
            | Inr d \<Rightarrow>
                registerField L pfx p f d (st\<lparr>consulted := consulted st @ [envName L (flagName L pfx f) f]\<rparr>))
      else registerField L pfx p f (fvalue f) st)"

text \<open>An error that comes out of a nested struct is wrapped with the field's name.\<close>

fun fieldFailure :: "status \<Rightarrow> string \<Rightarrow> status" where
  "fieldFailure (Err err) name = Err (FieldFailure err name)"
| "fieldFailure r name = r"

text \<open>
  \<open>reflectFields\<close> is the loop of \<^verbatim>\<open>reflectStruct\<close> from index \<open>i\<close> on, over the fields
  still to visit; \<open>reflectField\<close> is its body for the field at path \<open>p\<close>. Both return the
  fields as the walk leaves them. The recursive call of \<^verbatim>\<open>reflectStruct\<close> on a nested
  struct or on the target of a pointer is the loop over that struct's fields.
\<close>

fun reflectFields ::
  "lib \<Rightarrow> env \<Rightarrow> string \<Rightarrow> nat list \<Rightarrow> nat \<Rightarrow> field list \<Rightarrow> state \<Rightarrow> status \<times> field list \<times> state"
and reflectField ::
  "lib \<Rightarrow> env \<Rightarrow> string \<Rightarrow> nat list \<Rightarrow> field \<Rightarrow> state \<Rightarrow> status \<times> field \<times> state" where
  "reflectFields L e pfx p i [] st = (OK, [], st)"
| "reflectFields L e pfx p i (f # fs) st =
     (case reflectField L e pfx (p @ [i]) f st of (r, f', st') \<Rightarrow>
        if r = OK
        then (case reflectFields L e pfx p (Suc i) fs st' of (r', fs', st'') \<Rightarrow> (r', f' # fs', st''))
        else (r, f' # fs, st'))"
| "reflectField L e pfx p (Field name ex tag v) st =
     (if \<not> CanInterface (Field name ex tag v) \<or> \<not> CanSet (Field name ex tag v)
        then (OK, Field name ex tag v, st)
      else if fst (Lookup tag ''flag'') = ''-'' then (OK, Field name ex tag v, st)
      else (case v of
              VPtr None \<Rightarrow> (OK, Field name ex tag v, st)
            | VPtr (Some (VStruct fs)) \<Rightarrow>
                (case reflectFields L e (fpfx L pfx (Field name ex tag v)) p 0 fs st of
                   (r, fs', st') \<Rightarrow>
                     (fieldFailure r name, Field name ex tag (VPtr (Some (VStruct fs'))), st'))
            | VPtr (Some _) \<Rightarrow> (OK, Field name ex tag v, st)
            | VStruct fs \<Rightarrow>
                (case reflectFields L e (fpfx L pfx (Field name ex tag v)) p 0 fs st of
                   (r, fs', st') \<Rightarrow> (fieldFailure r name, Field name ex tag (VStruct fs'), st'))
            | _ \<Rightarrow> scalarField L e pfx p (Field name ex tag v) st))"

text \<open>
  \<^verbatim>\<open>reflectStruct\<close> as \<^verbatim>\<open>readConfig\<close> calls it: \<^verbatim>\<open>v.Elem().NumField()\<close> panics unless
  \<open>v\<close> points at a struct.
\<close>

definition reflectStruct :: "lib \<Rightarrow> env \<Rightarrow> val \<Rightarrow> string \<Rightarrow> state \<Rightarrow> status \<times> val \<times> state" where
  "reflectStruct L e v pfx st =
     (case v of
        VPtr (Some (VStruct fs)) \<Rightarrow>
          (case reflectFields L e pfx [] 0 fs st of
             (r, fs', st') \<Rightarrow> (r, VPtr (Some (VStruct fs')), st'))
      | _ \<Rightarrow> (Panic NumFieldOfNonStruct, v, st))"

section \<open>Entry point\<close>

definition IsNil :: "val \<Rightarrow> bool" where
  "IsNil v = (v = VPtr None)"

definition readConfig :: "lib \<Rightarrow> env \<Rightarrow> val \<Rightarrow> state \<Rightarrow> status \<times> val \<times> state" where
  "readConfig L e cfg st =
     (if Kind cfg \<noteq> Ptr \<or> IsNil cfg then (Err NotStructPointer, cfg, st)
      else reflectStruct L e cfg [] st)"

definition readConfigWithFlagset :: "lib \<Rightarrow> env \<Rightarrow> val \<Rightarrow> state \<Rightarrow> status \<times> val \<times> state" where
  "readConfigWithFlagset L e cfg flagset = readConfig L e cfg flagset"

section \<open>Argument parsing\<close>

text \<open>
  Path access into a configuration value: \<open>subfield f q\<close> is the field reached from \<open>f\<close>
  along the indices \<open>q\<close>, going through nested structs and through pointers to structs;
  \<open>fieldAt fs q\<close> starts from the fields of a struct. \<open>assign\<close> and \<open>store\<close> write a
  value to the field at a path, which is what a flag does through the pointer it holds.
\<close>

fun fieldsOf :: "val \<Rightarrow> field list option" where
  "fieldsOf (VStruct fs) = Some fs"
| "fieldsOf (VPtr (Some (VStruct fs))) = Some fs"
| "fieldsOf _ = None"

fun withFields :: "val \<Rightarrow> field list \<Rightarrow> val" where
  "withFields (VPtr _) fs = VPtr (Some (VStruct fs))"
| "withFields _ fs = VStruct fs"








section \<open>Case-insensitive comparison\<close>

text \<open>
  Two strings match case-insensitively when they are equal once the letters A to Z are
  replaced by a to z.
\<close>

definition lower_byte :: "char \<Rightarrow> char" where
  "lower_byte c =
     (case map_of (zip ''ABCDEFGHIJKLMNOPQRSTUVWXYZ'' ''abcdefghijklmnopqrstuvwxyz'') c of
        None \<Rightarrow> c
      | Some l \<Rightarrow> l)"

definition equalFold :: "string \<Rightarrow> string \<Rightarrow> bool" where
  "equalFold s t = (map lower_byte s = map lower_byte t)"

section \<open>An instance of the collaborators\<close>

text \<open>
  The theorems below hold for every \<open>lib\<close> and every environment. To evaluate the walker
  on examples, \<open>strcase\<close> is an instance in the manner of the \<^verbatim>\<open>strcase\<close> package: a
  delimiter is put where a lower-case letter or a digit meets what follows of another
  class and before the last capital of a run that a lower-case letter follows; spaces,
  underscores, hyphens and dots become the delimiter. The integer parser reads an
  optional sign and decimal digits, within 64 bits; floats and durations do not occur in
  the examples.
\<close>

definition isCap :: "char \<Rightarrow> bool" where
  "isCap c = (c \<in> set ''ABCDEFGHIJKLMNOPQRSTUVWXYZ'')"

definition isLow :: "char \<Rightarrow> bool" where
  "isLow c = (c \<in> set ''abcdefghijklmnopqrstuvwxyz'')"

definition isNum :: "char \<Rightarrow> bool" where
  "isNum c = (c \<in> set ''0123456789'')"

fun toDelimited :: "char \<Rightarrow> bool \<Rightarrow> bool \<Rightarrow> string \<Rightarrow> string" where
  "toDelimited d screaming prevIsCap [] = []"
| "toDelimited d screaming prevIsCap [v] =
     [if v \<in> set '' _-.'' then d else if screaming then upper_byte v else lower_byte v]"
| "toDelimited d screaming prevIsCap (v # next # s) =
     (let w = (if screaming then upper_byte v else lower_byte v)
      in if (isCap v \<and> (isLow next \<or> isNum next)) \<or> (isLow v \<and> (isCap next \<or> isNum next))
            \<or> (isNum v \<and> (isCap next \<or> isLow next))
         then (if isCap v \<and> isLow next \<and> prevIsCap then [d] else [])
              @ w # (if isLow v \<or> isNum v \<or> isNum next then [d] else [])
              @ toDelimited d screaming (isCap v) (next # s)
         else (if v \<in> set '' _-.'' then d else w) # toDelimited d screaming (isCap v) (next # s))"

fun digits :: "nat \<Rightarrow> string \<Rightarrow> nat option" where
  "digits n [] = Some n"
| "digits n (c # s) =
     (case map_of (zip ''0123456789'' [0, 1, 2, 3, 4, 5, 6, 7, 8, 9]) c of
        None \<Rightarrow> None
      | Some k \<Rightarrow> digits (10 * n + k) s)"

definition decimal :: "string \<Rightarrow> int option" where
  "decimal s =
     (case s of
        [] \<Rightarrow> None
      | c # r \<Rightarrow>
          (case (if c = CHR ''-'' \<or> c = CHR ''+'' then (if r = [] then None else digits 0 r)
                 else digits 0 s) of
             None \<Rightarrow> None
           | Some n \<Rightarrow>
               (let k = (if c = CHR ''-'' then - int n else int n)
                in if - (2 ^ 63) \<le> k \<and> k < 2 ^ 63 then Some k else None)))"

definition strcase :: lib where
  "strcase =
     \<lparr>ToKebab = toDelimited CHR ''-'' False False,
      ToScreamingSnake = toDelimited CHR ''_'' True False,
      Atoi = decimal,
      ParseInt = decimal,
      ParseFloat = (\<lambda>s. None),
      ParseDuration = (\<lambda>s. None)\<rparr>"

definition noFlags :: state where
  "noFlags = \<lparr>formal = (\<lambda>name. None), consulted = []\<rparr>"

section \<open>Terms of the specification\<close>

text \<open>
  The resolved default of a scalar field whose flag name is \<open>name\<close>: the value of
  \<^verbatim>\<open>defaultVal\<close> when the switch on the field's type is reached (lines 159 to 174), or
  the error of the environment resolver. \<open>logged\<close> is the log of consulted names after
  those lines.
\<close>

definition resolvedDefault :: "lib \<Rightarrow> env \<Rightarrow> string \<Rightarrow> field \<Rightarrow> error + val" where
  "resolvedDefault L e name f =
     (if fst (Lookup (ftag f) ''env'') \<noteq> ''-''
      then lookupEnv L e (envName L name f) (fvalue f)
      else Inr (fvalue f))"

definition logged :: "lib \<Rightarrow> string \<Rightarrow> field \<Rightarrow> state \<Rightarrow> state" where
  "logged L name f st =
     (if fst (Lookup (ftag f) ''env'') \<noteq> ''-''
      then st\<lparr>consulted := consulted st @ [envName L name f]\<rparr> else st)"

text \<open>The names of the types the switch registers.\<close>

definition supported :: "string list" where
  "supported = [''int'', ''int64'', ''float64'', ''string'', ''bool'', ''time.Duration'']"





section \<open>The configuration of the package's test\<close>




section \<open>Properties of the environment resolver\<close>

lemma upper_lower_T: "(upper_byte c = CHR ''T'') = (lower_byte c = CHR ''t'')"
  by (simp add: upper_byte_def lower_byte_def)

lemma upper_lower_R: "(upper_byte c = CHR ''R'') = (lower_byte c = CHR ''r'')"
  by (simp add: upper_byte_def lower_byte_def)

lemma upper_lower_U: "(upper_byte c = CHR ''U'') = (lower_byte c = CHR ''u'')"
  by (simp add: upper_byte_def lower_byte_def)

lemma upper_lower_E: "(upper_byte c = CHR ''E'') = (lower_byte c = CHR ''e'')"
  by (simp add: upper_byte_def lower_byte_def)

lemma upper_lower_1: "(upper_byte c = CHR ''1'') = (lower_byte c = CHR ''1'')"
  by (simp add: upper_byte_def lower_byte_def)

lemma lower_byte_true:
  "lower_byte CHR ''t'' = CHR ''t''" "lower_byte CHR ''r'' = CHR ''r''"
  "lower_byte CHR ''u'' = CHR ''u''" "lower_byte CHR ''e'' = CHR ''e''"
  "lower_byte CHR ''1'' = CHR ''1''"
  by (simp_all add: lower_byte_def)

lemma ToUpper_TRUE: "(ToUpper s = ''TRUE'') = equalFold s ''true''"
  unfolding ToUpper_def equalFold_def
  by (simp add: lower_byte_true map_eq_Cons_conv upper_lower_T upper_lower_R upper_lower_U
      upper_lower_E)

lemma ToUpper_1: "(ToUpper s = ''1'') = equalFold s ''1''"
  unfolding ToUpper_def equalFold_def
  by (simp add: lower_byte_true map_eq_Cons_conv upper_lower_1)

text \<open>
  C7. Against a boolean default the environment resolver never returns an error: when the
  variable is set the result is true exactly when its value matches \<^verbatim>\<open>true\<close> or \<^verbatim>\<open>1\<close>
  case-insensitively, and false for every other value (an unset variable leaves the
  default).
\<close>

theorem lookupEnv_bool_total:
  "lookupEnv L e envNm (VBool d) =
     Inr (VBool (case LookupEnv e envNm of
                   None \<Rightarrow> d
                 | Some res \<Rightarrow> equalFold res ''true'' \<or> equalFold res ''1''))"
  by (simp add: ToUpper_TRUE ToUpper_1 split: option.split)

theorem lookupEnv_bool_total_witness:
  "lookupEnv strcase [''DEBUG'' \<mapsto> ''tRuE''] ''DEBUG'' (VBool False) = Inr (VBool True)
   \<and> lookupEnv strcase [''DEBUG'' \<mapsto> ''yes''] ''DEBUG'' (VBool True) = Inr (VBool False)"
  using lookupEnv_bool_total [of strcase "[''DEBUG'' \<mapsto> ''tRuE'']" "''DEBUG''" False]
    lookupEnv_bool_total [of strcase "[''DEBUG'' \<mapsto> ''yes'']" "''DEBUG''" True]
  by (simp add: LookupEnv_def equalFold_def lower_byte_def)

section \<open>Properties of the walker's steps\<close>

lemmas walk_defs = scalarField_def registerField_def typedVar_def Var_def envName_def
  flagName_def fpfx_def Lookup_def Get_def CanAddr_def CanInterface_def CanSet_def setValue_def

lemmas entry_defs = readConfig_def readConfigWithFlagset_def reflectStruct_def IsNil_def

lemmas strcase_defs = strcase_def isCap_def isLow_def isNum_def upper_byte_def lower_byte_def
  decimal_def ToUpper_def LookupEnv_def noFlags_def

declare lookupEnv.simps [simp del]

lemma lookupEnv_unset: "LookupEnv e envNm = None \<Longrightarrow> lookupEnv L e envNm d = Inr d"
  by (simp add: lookupEnv.simps)

lemma lookupEnv_hasType:
  "lookupEnv L e envNm d = Inr d' \<Longrightarrow> hasType d T \<Longrightarrow> hasType d' T"
  by (cases d) (auto simp: lookupEnv.simps Let_def split: option.splits if_splits)

lemma lookupEnv_unsupported:
  "\<not> hasType d (TypeString d) \<Longrightarrow> lookupEnv L e envNm d =
     (case LookupEnv e envNm of None \<Rightarrow> Inr d | Some res \<Rightarrow> Inl (LookupUnsupported envNm d))"
  by (cases d) (simp_all add: lookupEnv.simps split: option.split)


lemma hasType_supported: "hasType v T \<Longrightarrow> T \<in> set supported"
  by (cases v) (simp_all add: supported_def)

lemma hasType_Kind: "hasType v T \<Longrightarrow> Kind v = Scalar"
  by (cases v) simp_all

lemma Var_cases:
  "Var st name fl = (r, st') \<Longrightarrow>
     (r = OK \<and> formal st name = None \<and> st' = st\<lparr>formal := (formal st)(name \<mapsto> fl)\<rparr>)
     \<or> ((\<exists>x. r = Panic x) \<and> st' = st)"
  by (auto simp: Var_def split: if_splits)

lemma registerField_supported:
  "hasType (fvalue f) T \<Longrightarrow> hasType d T \<Longrightarrow>
   registerField L pfx p f d st =
     (case Var st (flagName L pfx f)
             \<lparr>Usage = Get (ftag f) ''usage'', DefValue = d, Target = Some p\<rparr> of
        (r, st') \<Rightarrow> (r, setValue f d, st'))"
  by (cases "fvalue f") (simp_all add: registerField_def CanAddr_def typedVar_def)

lemma registerField_unsupported:
  "fvalue f = VOther T c \<Longrightarrow> T \<notin> set supported \<Longrightarrow>
   registerField L pfx p f d st = (Err (UnsupportedType T), f, st)"
  by (simp add: registerField_def CanAddr_def supported_def)

lemma registerField_other_clash:
  "fvalue f = VOther T c \<Longrightarrow> T \<in> set supported \<Longrightarrow>
   registerField L pfx p f d st = (Panic (TypeAssertion T), f, st)"
  by (auto simp: registerField_def CanAddr_def supported_def typedVar_def)

lemma scalarField_eq:
  "scalarField L e pfx p f st =
     (case resolvedDefault L e (flagName L pfx f) f of
        Inl err \<Rightarrow> (Err err, f, logged L (flagName L pfx f) f st)
      | Inr d \<Rightarrow> registerField L pfx p f d (logged L (flagName L pfx f) f st))"
  by (simp add: scalarField_def resolvedDefault_def logged_def split: sum.split)

lemma setValue_same: "setValue f (fvalue f) = f"
  by (cases f) (simp add: setValue_def)

lemma setValue_sel [simp]:
  "fname (setValue f v) = fname f" "exported (setValue f v) = exported f"
  "ftag (setValue f v) = ftag f" "fvalue (setValue f v) = v"
  by (simp_all add: setValue_def)

lemma reflectField_unfold:
  "reflectField L e pfx p f st =
     (if \<not> CanInterface f \<or> \<not> CanSet f then (OK, f, st)
      else if fst (Lookup (ftag f) ''flag'') = ''-'' then (OK, f, st)
      else (case fvalue f of
              VPtr None \<Rightarrow> (OK, f, st)
            | VPtr (Some (VStruct fs)) \<Rightarrow>
                (case reflectFields L e (fpfx L pfx f) p 0 fs st of
                   (r, fs', st') \<Rightarrow>
                     (fieldFailure r (fname f), setValue f (VPtr (Some (VStruct fs'))), st'))
            | VPtr (Some _) \<Rightarrow> (OK, f, st)
            | VStruct fs \<Rightarrow>
                (case reflectFields L e (fpfx L pfx f) p 0 fs st of
                   (r, fs', st') \<Rightarrow> (fieldFailure r (fname f), setValue f (VStruct fs'), st'))
            | _ \<Rightarrow> scalarField L e pfx p f st))"
  by (cases f) (simp add: setValue_def split: val.split option.split)


lemma reflectField_scalar:
  "exported f \<Longrightarrow> fst (Lookup (ftag f) ''flag'') \<noteq> ''-'' \<Longrightarrow> Kind (fvalue f) = Scalar \<Longrightarrow>
   reflectField L e pfx p f st = scalarField L e pfx p f st"
  by (cases "fvalue f") (simp_all add: reflectField_unfold CanInterface_def CanSet_def CanAddr_def)

lemma reflectField_nested:
  "exported f \<Longrightarrow> fst (Lookup (ftag f) ''flag'') \<noteq> ''-'' \<Longrightarrow> fieldsOf (fvalue f) = Some fs \<Longrightarrow>
   reflectField L e pfx p f st =
     (case reflectFields L e (fpfx L pfx f) p 0 fs st of
        (r, fs', st') \<Rightarrow> (fieldFailure r (fname f), setValue f (withFields (fvalue f) fs'), st'))"
  by (cases "fvalue f" rule: fieldsOf.cases)
     (simp_all add: reflectField_unfold CanInterface_def CanSet_def CanAddr_def)

lemma reflectField_pointer_skip:
  "Kind (fvalue f) = Ptr \<Longrightarrow> fieldsOf (fvalue f) = None \<Longrightarrow>
   reflectField L e pfx p f st = (OK, f, st)"
  by (cases "fvalue f" rule: fieldsOf.cases) (simp_all add: reflectField_unfold)

declare reflectField.simps [simp del]

lemma logged_simps [simp]:
  "formal (logged L name f st) = formal st"
  "consulted (logged L name f st) =
     (if fst (Lookup (ftag f) ''env'') \<noteq> ''-'' then consulted st @ [envName L name f]
      else consulted st)"
  by (simp_all add: logged_def)

lemma resolvedDefault_hasType:
  "resolvedDefault L e name f = Inr d \<Longrightarrow> hasType (fvalue f) T \<Longrightarrow> hasType d T"
  by (auto simp: resolvedDefault_def split: if_splits dest: lookupEnv_hasType)

lemma registerField_untyped:
  "\<not> hasType (fvalue f) (TypeString (fvalue f)) \<Longrightarrow> registerField L pfx p f d st = (r, f', st') \<Longrightarrow>
   r \<noteq> OK \<and> f' = f \<and> st' = st"
proof (cases "fvalue f")
  case (VOther T c)
  assume "registerField L pfx p f d st = (r, f', st')"
  then show ?thesis
    using registerField_unsupported [OF VOther, of L pfx p d st]
      registerField_other_clash [OF VOther, of L pfx p d st]
    by (cases "T \<in> set supported") auto
qed (auto simp: registerField_def CanAddr_def)

lemma registerField_typed:
  assumes ty: "hasType (fvalue f) T" "hasType d T"
    and run: "registerField L pfx p f d st = (r, f', st')"
  shows "f' = setValue f d \<and> consulted st' = consulted st
    \<and> (r = OK \<longrightarrow> formal st (flagName L pfx f) = None
          \<and> formal st' = (formal st)(flagName L pfx f \<mapsto>
                \<lparr>Usage = Get (ftag f) ''usage'', DefValue = d, Target = Some p\<rparr>))
    \<and> (r \<noteq> OK \<longrightarrow> (\<exists>x. r = Panic x) \<and> st' = st)"
proof -
  obtain r0 st0 where v: "Var st (flagName L pfx f)
      \<lparr>Usage = Get (ftag f) ''usage'', DefValue = d, Target = Some p\<rparr> = (r0, st0)"
    by (cases "Var st (flagName L pfx f)
      \<lparr>Usage = Get (ftag f) ''usage'', DefValue = d, Target = Some p\<rparr>") auto
  from run have eq: "r = r0" "f' = setValue f d" "st' = st0"
    by (simp_all add: registerField_supported [OF ty] v)
  from Var_cases [OF v] show ?thesis
    unfolding eq by auto
qed

lemma scalarField_result:
  assumes run: "scalarField L e pfx p f st = (r, f', st')"
  shows "consulted st' = consulted (logged L (flagName L pfx f) f st)
    \<and> (r = OK \<longrightarrow> (\<exists>d. resolvedDefault L e (flagName L pfx f) f = Inr d \<and> f' = setValue f d
          \<and> hasType (fvalue f) (TypeString (fvalue f)) \<and> hasType d (TypeString (fvalue f))
          \<and> formal st (flagName L pfx f) = None
          \<and> formal st' = (formal st)(flagName L pfx f \<mapsto>
                \<lparr>Usage = Get (ftag f) ''usage'', DefValue = d, Target = Some p\<rparr>)))
    \<and> (r \<noteq> OK \<longrightarrow> formal st' = formal st)"
proof (cases "resolvedDefault L e (flagName L pfx f) f")
  case (Inl err)
  with run show ?thesis by (simp add: scalarField_eq) auto
next
  case (Inr d)
  with run have reg: "registerField L pfx p f d (logged L (flagName L pfx f) f st) = (r, f', st')"
    by (simp add: scalarField_eq)
  show ?thesis
  proof (cases "hasType (fvalue f) (TypeString (fvalue f))")
    case True
    then have "hasType d (TypeString (fvalue f))"
      using Inr by (rule resolvedDefault_hasType [rotated])
    from registerField_typed [OF True this reg] Inr True this show ?thesis
      by auto
  next
    case False
    from registerField_untyped [OF False reg] show ?thesis by simp
  qed
qed

section \<open>Evaluation of the examples\<close>

lemmas eval = reflectField_unfold walk_defs LookupEnv_def noFlags_def lookupEnv.simps

lemma strcase_eval:
  "ToKebab strcase [] = []"
  "ToKebab strcase ''addr-'' = ''addr-''"
  "ToKebab strcase ''Addr'' = ''addr''"
  "ToKebab strcase ''Age'' = ''age''"
  "ToKebab strcase ''Debug'' = ''debug''"
  "ToKebab strcase ''FieldAPIKey'' = ''field-api-key''"
  "ToKebab strcase ''LastName'' = ''last-name''"
  "ToKebab strcase ''Limit'' = ''limit''"
  "ToKebab strcase ''Name'' = ''name''"
  "ToKebab strcase ''Street'' = ''street''"
  "ToKebab strcase ''Swimmer'' = ''swimmer''"
  "ToKebab strcase ''Token'' = ''token''"
  "ToKebab strcase ''Zip'' = ''zip''"
  "ToScreamingSnake strcase ''addr-field-api-key'' = ''ADDR_FIELD_API_KEY''"
  "ToScreamingSnake strcase ''addr-postcode'' = ''ADDR_POSTCODE''"
  "ToScreamingSnake strcase ''addr-street'' = ''ADDR_STREET''"
  "ToScreamingSnake strcase ''addr-zip'' = ''ADDR_ZIP''"
  "ToScreamingSnake strcase ''age'' = ''AGE''"
  "ToScreamingSnake strcase ''first_name'' = ''FIRST_NAME''"
  "ToScreamingSnake strcase ''last-name'' = ''LAST_NAME''"
  "ToScreamingSnake strcase ''limit'' = ''LIMIT''"
  "ToScreamingSnake strcase ''name'' = ''NAME''"
  "ToScreamingSnake strcase ''postcode'' = ''POSTCODE''"
  "ToScreamingSnake strcase ''street'' = ''STREET''"
  "ToScreamingSnake strcase ''swimmer'' = ''SWIMMER''"
  "Atoi strcase ''abc'' = None"
  "Atoi strcase ''7'' = Some 7"
  by (simp_all add: strcase_def isCap_def isLow_def isNum_def upper_byte_def lower_byte_def
      decimal_def)

section \<open>Induction over the walk\<close>












section \<open>Paths and stores\<close>

lemma fieldsOf_withFields [simp]: "fieldsOf (withFields v fs) = Some fs"
  by (cases v) simp_all


lemma setValue_setValue [simp]: "setValue (setValue f v) w = setValue f w"
  by (simp add: setValue_def)







section \<open>What the walk binds\<close>







section \<open>The walk of the test configuration\<close>


section \<open>Entry point: the argument\<close>

lemma readConfig_rejects_non_pointer:
  "Kind cfg \<noteq> Ptr \<or> cfg = VPtr None \<Longrightarrow> readConfig L e cfg st = (Err NotStructPointer, cfg, st)"
  by (auto simp: readConfig_def IsNil_def)

text \<open>
  C2. The claim: every argument that is not a non-null pointer to a struct is answered
  with the error \<^verbatim>\<open>argument is not a struct pointer\<close>. A value that is not a pointer and
  a nil pointer are (\<open>readConfig_rejects_non_pointer\<close>). A non-null pointer whose target
  is not a struct is not: \<^verbatim>\<open>readConfig\<close> tests only \<^verbatim>\<open>v.Kind() != reflect.Ptr\<close> and
  \<^verbatim>\<open>v.IsNil()\<close>, and \<^verbatim>\<open>reflectStruct\<close> then calls \<^verbatim>\<open>NumField\<close> on the target, which
  panics. The theorem states what the code does on such an argument.
\<close>

theorem readConfig_non_struct_target_panics:
  "Kind v \<noteq> Struct \<Longrightarrow>
   readConfig L e (VPtr (Some v)) st = (Panic NumFieldOfNonStruct, VPtr (Some v), st)"
  by (cases v) (simp_all add: entry_defs)

theorem readConfig_non_struct_target_panics_witness:
  "readConfig strcase Map.empty (VPtr (Some (VInt 5))) noFlags
     = (Panic NumFieldOfNonStruct, VPtr (Some (VInt 5)), noFlags)"
  using readConfig_non_struct_target_panics [of "VInt 5" strcase Map.empty noFlags]
  by simp

section \<open>Fields that are passed over\<close>

text \<open>
  C8. A field whose value is a nil pointer is skipped without error: the field and the
  state (the registered flags and the log of environment lookups) are returned as they
  were, and the loop goes on with the fields after it.
\<close>

theorem nil_pointer_field_skipped:
  "fvalue f = VPtr None \<Longrightarrow>
   reflectField L e pfx p f st = (OK, f, st)
   \<and> reflectFields L e pfx q i (f # fs) st =
       (case reflectFields L e pfx q (Suc i) fs st of (r, fs', st') \<Rightarrow> (r, f # fs', st'))"
  by (simp add: reflectField_pointer_skip)

theorem nil_pointer_field_skipped_witness:
  "reflectField strcase Map.empty [] [3] (Field ''Addr3'' True [] (VPtr None)) noFlags
     = (OK, Field ''Addr3'' True [] (VPtr None), noFlags)
   \<and> reflectFields strcase Map.empty [] [] 0
        [Field ''Addr3'' True [] (VPtr None), Field ''Name'' True [] (VString ''x'')] noFlags
     = (OK, [Field ''Addr3'' True [] (VPtr None), Field ''Name'' True [] (VString ''x'')],
        \<lparr>formal = [''name'' \<mapsto> \<lparr>Usage = [], DefValue = VString ''x'', Target = Some [1]\<rparr>],
         consulted = [''NAME'']\<rparr>)"
  using nil_pointer_field_skipped [of "Field ''Addr3'' True [] (VPtr None)" strcase Map.empty "[]"
      "[3]" noFlags "[]" 0 "[Field ''Name'' True [] (VString ''x'')]"]
  by (simp add: eval strcase_eval)

section \<open>Names of a scalar field\<close>

text \<open>
  C4. An exported scalar field with no \<^verbatim>\<open>flag\<close> and no \<^verbatim>\<open>env\<close> annotation: the
  environment name consulted is \<^verbatim>\<open>ToScreamingSnake\<close> of the flag name, and the flag
  name under which the field is registered is \<^verbatim>\<open>ToKebab(pfx) + ToKebab(field.Name)\<close>.
\<close>

theorem scalar_default_names:
  "exported f \<Longrightarrow> map_of (ftag f) ''flag'' = None \<Longrightarrow> map_of (ftag f) ''env'' = None \<Longrightarrow>
   Kind (fvalue f) = Scalar \<Longrightarrow> reflectField L e pfx p f st = (r, f', st') \<Longrightarrow>
   consulted st' = consulted st @ [ToScreamingSnake L (ToKebab L pfx @ ToKebab L (fname f))]
   \<and> (r = OK \<longrightarrow>
        formal st' = (formal st)(ToKebab L pfx @ ToKebab L (fname f) \<mapsto>
           \<lparr>Usage = Get (ftag f) ''usage'', DefValue = fvalue f', Target = Some p\<rparr>))"
proof -
  assume ex: "exported f" and fl: "map_of (ftag f) ''flag'' = None"
    and en: "map_of (ftag f) ''env'' = None" and k: "Kind (fvalue f) = Scalar"
    and run: "reflectField L e pfx p f st = (r, f', st')"
  have fn: "flagName L pfx f = ToKebab L pfx @ ToKebab L (fname f)"
    using fl by (simp add: flagName_def Lookup_def)
  have nm: "envName L name f = ToScreamingSnake L name" for name
    using en by (simp add: envName_def Lookup_def)
  have tag: "fst (Lookup (ftag f) ''flag'') \<noteq> ''-''" "fst (Lookup (ftag f) ''env'') \<noteq> ''-''"
    using fl en by (simp_all add: Lookup_def)
  from run have "scalarField L e pfx p f st = (r, f', st')"
    by (simp add: reflectField_scalar [OF ex tag(1) k])
  from scalarField_result [OF this] show ?thesis
    using tag(2) by (auto simp: fn nm)
qed

theorem scalar_default_names_witness:
  "consulted (snd (snd (reflectField strcase Map.empty ''addr-'' [1, 0]
       (Field ''FieldAPIKey'' True [(''usage'', ''the key'')] (VString ''k'')) noFlags)))
     = [''ADDR_FIELD_API_KEY'']
   \<and> formal (snd (snd (reflectField strcase Map.empty ''addr-'' [1, 0]
       (Field ''FieldAPIKey'' True [(''usage'', ''the key'')] (VString ''k'')) noFlags)))
     = [''addr-field-api-key'' \<mapsto>
          \<lparr>Usage = ''the key'', DefValue = VString ''k'', Target = Some [1, 0]\<rparr>]"
proof -
  let ?f = "Field ''FieldAPIKey'' True [(''usage'', ''the key'')] (VString ''k'')"
  have run: "reflectField strcase Map.empty ''addr-'' [1, 0] ?f noFlags =
      (OK, ?f, \<lparr>formal = [''addr-field-api-key'' \<mapsto>
          \<lparr>Usage = ''the key'', DefValue = VString ''k'', Target = Some [1, 0]\<rparr>],
          consulted = [''ADDR_FIELD_API_KEY'']\<rparr>)"
    by (simp add: eval strcase_eval)
  from scalar_default_names [OF _ _ _ _ run] show ?thesis
    unfolding run by (simp add: strcase_eval noFlags_def Get_def Lookup_def)
qed

section \<open>Prefix of a nested struct\<close>

text \<open>
  C3. For an exported nested struct field (inline, or behind a non-nil pointer) that is
  not ignored, the walk of the field is the walk of its fields under the prefix
  \<open>flagName @ ''-''\<close>, the field's flag name followed by a hyphen; when the \<^verbatim>\<open>flag\<close>
  annotation is present and empty the prefix is the empty string, so that the walk below
  depends neither on the prefix above nor on the field's name. An error of the inner
  walk is wrapped with the field's name.
\<close>

theorem nested_child_prefix:
  "exported f \<Longrightarrow> fst (Lookup (ftag f) ''flag'') \<noteq> ''-'' \<Longrightarrow> fieldsOf (fvalue f) = Some fs \<Longrightarrow>
   reflectField L e pfx p f st =
     (case reflectFields L e
             (if map_of (ftag f) ''flag'' = Some [] then [] else flagName L pfx f @ ''-'') p 0 fs st of
        (r, fs', st') \<Rightarrow> (fieldFailure r (fname f), setValue f (withFields (fvalue f) fs'), st'))"
proof -
  assume a: "exported f" "fst (Lookup (ftag f) ''flag'') \<noteq> ''-''" "fieldsOf (fvalue f) = Some fs"
  have "fpfx L pfx f = (if map_of (ftag f) ''flag'' = Some [] then [] else flagName L pfx f @ ''-'')"
    by (simp add: fpfx_def Lookup_def split: option.split)
  with reflectField_nested [OF a] show ?thesis by simp
qed

theorem nested_child_prefix_witness:
  "reflectField strcase Map.empty [] [2] (Field ''Addr2'' True [(''flag'', [])] (VPtr (Some (VStruct
         [Field ''Street'' True [] (VString []), Field ''Zip'' True [(''flag'', ''postcode'')] (VString [])])))) noFlags
    = (OK, Field ''Addr2'' True [(''flag'', [])] (VPtr (Some (VStruct
         [Field ''Street'' True [] (VString []), Field ''Zip'' True [(''flag'', ''postcode'')] (VString [])]))),
       \<lparr>formal = [''street'' \<mapsto> \<lparr>Usage = [], DefValue = VString [], Target = Some [2, 0]\<rparr>,
                  ''postcode'' \<mapsto> \<lparr>Usage = [], DefValue = VString [], Target = Some [2, 1]\<rparr>],
        consulted = [''STREET'', ''POSTCODE'']\<rparr>)
   \<and> reflectField strcase Map.empty [] [0] (Field ''Addr'' True [] (VStruct
         [Field ''Street'' True [] (VString []), Field ''Zip'' True [(''flag'', ''postcode'')] (VString [])])) noFlags
    = (OK, Field ''Addr'' True [] (VStruct
         [Field ''Street'' True [] (VString []), Field ''Zip'' True [(''flag'', ''postcode'')] (VString [])]),
       \<lparr>formal = [''addr-street'' \<mapsto> \<lparr>Usage = [], DefValue = VString [], Target = Some [0, 0]\<rparr>,
                  ''addr-postcode'' \<mapsto> \<lparr>Usage = [], DefValue = VString [], Target = Some [0, 1]\<rparr>],
        consulted = [''ADDR_STREET'', ''ADDR_POSTCODE'']\<rparr>)"
proof -
  let ?ss2 = "[Field ''Street'' True [] (VString []), Field ''Zip'' True [(''flag'', ''postcode'')] (VString [])]"
  have a: "reflectFields strcase Map.empty [] [2] 0 ?ss2 noFlags
     = (OK, ?ss2, \<lparr>formal = [''street'' \<mapsto> \<lparr>Usage = [], DefValue = VString [], Target = Some [2, 0]\<rparr>,
                  ''postcode'' \<mapsto> \<lparr>Usage = [], DefValue = VString [], Target = Some [2, 1]\<rparr>],
        consulted = [''STREET'', ''POSTCODE'']\<rparr>)"
    by (simp add: eval strcase_eval)
  have b: "reflectFields strcase Map.empty ''addr-'' [0] 0 ?ss2 noFlags
     = (OK, ?ss2, \<lparr>formal = [''addr-street'' \<mapsto> \<lparr>Usage = [], DefValue = VString [], Target = Some [0, 0]\<rparr>,
                  ''addr-postcode'' \<mapsto> \<lparr>Usage = [], DefValue = VString [], Target = Some [0, 1]\<rparr>],
        consulted = [''ADDR_STREET'', ''ADDR_POSTCODE'']\<rparr>)"
    by (simp add: eval strcase_eval)
  show ?thesis
    using nested_child_prefix [of "Field ''Addr2'' True [(''flag'', [])] (VPtr (Some (VStruct ?ss2)))"
        ?ss2 strcase Map.empty "[]" "[2]" noFlags]
      nested_child_prefix [of "Field ''Addr'' True [] (VStruct ?ss2)"
        ?ss2 strcase Map.empty "[]" "[0]" noFlags]
    by (simp add: a b Lookup_def flagName_def strcase_eval setValue_def del: reflectFields.simps)
qed

section \<open>Failure\<close>



section \<open>An empty environment name\<close>

text \<open>
  C10. An exported scalar field of a supported type whose \<^verbatim>\<open>env\<close> annotation is present
  and empty: the environment name used is the empty string, under which the environment
  has no variable, so the resolved default is the field's current value; the field is
  handed to the registrar under its computed flag name with that default, and keeps its
  value.
\<close>

theorem empty_env_tag:
  "exported f \<Longrightarrow> fst (Lookup (ftag f) ''flag'') \<noteq> ''-'' \<Longrightarrow> map_of (ftag f) ''env'' = Some [] \<Longrightarrow>
   hasType (fvalue f) T \<Longrightarrow>
   envName L (flagName L pfx f) f = [] \<and> resolvedDefault L e (flagName L pfx f) f = Inr (fvalue f)
   \<and> reflectField L e pfx p f st =
       (case Var (st\<lparr>consulted := consulted st @ [[]]\<rparr>) (flagName L pfx f)
               \<lparr>Usage = Get (ftag f) ''usage'', DefValue = fvalue f, Target = Some p\<rparr> of
          (r, st') \<Rightarrow> (r, f, st'))"
proof -
  assume ex: "exported f" and fl: "fst (Lookup (ftag f) ''flag'') \<noteq> ''-''"
    and env: "map_of (ftag f) ''env'' = Some []" and ty: "hasType (fvalue f) T"
  have nm: "envName L (flagName L pfx f) f = []"
    using env by (simp add: envName_def Lookup_def)
  have tag: "fst (Lookup (ftag f) ''env'') \<noteq> ''-''"
    using env by (simp add: Lookup_def)
  have rd: "resolvedDefault L e (flagName L pfx f) f = Inr (fvalue f)"
    using tag by (simp add: resolvedDefault_def nm lookupEnv_unset LookupEnv_def)
  have lg: "logged L (flagName L pfx f) f st = st\<lparr>consulted := consulted st @ [[]]\<rparr>"
    using tag by (simp add: logged_def nm)
  have "reflectField L e pfx p f st = scalarField L e pfx p f st"
    by (rule reflectField_scalar [OF ex fl hasType_Kind [OF ty]])
  also have "\<dots> = registerField L pfx p f (fvalue f) (st\<lparr>consulted := consulted st @ [[]]\<rparr>)"
    by (simp add: scalarField_eq rd lg)
  also have "\<dots> = (case Var (st\<lparr>consulted := consulted st @ [[]]\<rparr>) (flagName L pfx f)
               \<lparr>Usage = Get (ftag f) ''usage'', DefValue = fvalue f, Target = Some p\<rparr> of
          (r, st') \<Rightarrow> (r, f, st'))"
    by (simp add: registerField_supported [OF ty ty] setValue_same)
  finally show ?thesis using nm rd by simp
qed

theorem empty_env_tag_witness:
  "reflectField strcase [[] \<mapsto> ''x'', ''TOKEN'' \<mapsto> ''y''] [] [0]
      (Field ''Token'' True [(''env'', [])] (VString ''secret'')) noFlags
    = (OK, Field ''Token'' True [(''env'', [])] (VString ''secret''),
       \<lparr>formal = [''token'' \<mapsto> \<lparr>Usage = [], DefValue = VString ''secret'', Target = Some [0]\<rparr>],
        consulted = [[]]\<rparr>)"
  using empty_env_tag [of "Field ''Token'' True [(''env'', [])] (VString ''secret'')" "''string''"
      strcase "[]" "[[] \<mapsto> ''x'', ''TOKEN'' \<mapsto> ''y'']" "[0]" noFlags]
  by (simp add: Lookup_def Get_def flagName_def Var_def noFlags_def strcase_eval)

section \<open>Unsupported types\<close>




section \<open>The configuration after the walk\<close>



section \<open>Precedence\<close>



end
